theory Spec2Isabelle
  imports Main "HOL-Library.Sublist"
begin

text \<open>
  The multi-platform posting hook of \<^verbatim>\<open>src/hooks/form/useMultiPlatformPost.ts\<close>:
  its request validation, its sequential dispatch loop, the classification of the batch,
  and the cancel and reset operations, as functions on an explicit state. Line numbers
  refer to that file.
\<close>

section \<open>Data model\<close>

text \<open>
  Modelled from the spec: the type declarations of \<^verbatim>\<open>@/types/api\<close> (the platform tag,
  the request, its content and platform-specific options, the per-platform result and the
  response) are not among the source files. They follow section 3 of the specification
  and the fields the hook reads and writes. A platform tag that is none of the three known
  ones reaches the \<^verbatim>\<open>default:\<close> branch of the dispatch switch; it is kept as
  \<open>Unsupported tag\<close>.
\<close>

datatype Platform = Linkedin | X | Substack | Unsupported string

fun platform_tag :: "Platform \<Rightarrow> string" where
  "platform_tag Linkedin = ''linkedin''"
| "platform_tag X = ''x''"
| "platform_tag Substack = ''substack''"
| "platform_tag (Unsupported tag) = tag"

datatype MediaType = TEXT | IMAGE | VIDEO

datatype File = File string

record PostContent =
  content_text :: string
  content_media :: "File option"
  content_mediaType :: "MediaType option"

record ArticleData =
  article_url :: string
  article_title :: string
  article_description :: "string option"

record LinkedinSpecific =
  visibility :: "string option"
  articleData :: "ArticleData option"

record SubstackSpecific =
  title :: "string option"
  subtitle :: "string option"
  isDraft :: "bool option"

record PlatformSpecific =
  specific_linkedin :: "LinkedinSpecific option"
  specific_substack :: "SubstackSpecific option"

record MultiPlatformPostRequest =
  platforms :: "Platform list"
  content :: PostContent
  platformSpecific :: PlatformSpecific

text \<open>Payloads handed to the platform adapters.\<close>

record MediaItem =
  media_assetUrn :: string
  media_title :: string
  media_description :: string

record CreatePostRequest =
  post_text :: string
  post_visibility :: string
  post_mediaType :: "MediaType option"
  post_media :: "MediaItem list option"
  post_articleUrl :: "string option"
  post_articleTitle :: "string option"
  post_articleDescription :: "string option"

record CreateTweetRequest =
  tweet_text :: string
  tweet_media :: "File option"

record CreateSubstackPostRequest =
  substack_title :: string
  substack_subtitle :: "string option"
  substack_content :: string
  substack_isDraft :: bool

text \<open>What an adapter resolves with.\<close>

record ApiResponse =
  api_success :: bool
  api_message :: "string option"
  api_data :: "string option"

record UploadResponse =
  upload_success :: bool
  upload_assetUrn :: "string option"
  upload_message :: "string option"

record PlatformPostResult =
  platform :: Platform
  success :: bool
  data :: "ApiResponse option"
  error :: "string option"

record MultiPlatformPostResponse =
  response_success :: bool
  response_results :: "PlatformPostResult list"
  response_message :: string

text \<open>
  A thrown JavaScript value: an instance of \<^verbatim>\<open>Error\<close> with its message, or any other
  value (the handlers only ask \<^verbatim>\<open>error instanceof Error\<close>).
\<close>

datatype thrown = Error string | NonError

section \<open>Collaborators\<close>

text \<open>
  The platform adapters (\<^verbatim>\<open>@/services/api\<close>, not among the source files), the session
  store and the notification callbacks are code outside the hook, and are parameters of
  the model. Each is a function on an abstract world \<open>'w\<close>, so that an adapter may answer
  differently on every call; a rejected promise or a throwing callback is the \<open>Inl\<close>
  (respectively \<open>Some\<close>) result.
\<close>

record 'w Apis =
  uploadMedia :: "File \<Rightarrow> string \<Rightarrow> string \<Rightarrow> 'w \<Rightarrow> (thrown + UploadResponse) \<times> 'w"
  linkedin_createPost :: "CreatePostRequest \<Rightarrow> 'w \<Rightarrow> (thrown + ApiResponse) \<times> 'w"
  createTweet :: "CreateTweetRequest \<Rightarrow> 'w \<Rightarrow> (thrown + ApiResponse) \<times> 'w"
  substack_createPost ::
    "string \<Rightarrow> CreateSubstackPostRequest \<Rightarrow> 'w \<Rightarrow> (thrown + ApiResponse) \<times> 'w"
  getItem :: "string \<Rightarrow> 'w \<Rightarrow> (thrown + string option) \<times> 'w"

record 'w UseMultiPlatformPostOptions =
  onSuccess :: "(MultiPlatformPostResponse \<Rightarrow> 'w \<Rightarrow> thrown option \<times> 'w) option"
  onError :: "(string \<Rightarrow> 'w \<Rightarrow> thrown option \<times> 'w) option"
  onPartialSuccess :: "(PlatformPostResult list \<Rightarrow> 'w \<Rightarrow> thrown option \<times> 'w) option"
  requestDelay :: "int option"

text \<open>The default parameter value \<^verbatim>\<open>options = {}\<close>.\<close>

definition default_options :: "'w UseMultiPlatformPostOptions" where
  "default_options =
     \<lparr>onSuccess = None, onError = None, onPartialSuccess = None, requestDelay = None\<rparr>"

section \<open>Hook state and observable events\<close>

record HookState =
  isPosting :: bool
  postSuccess :: bool
  postError :: "string option"
  uploadProgress :: int
  currentPlatforms :: "Platform list"
  results :: "PlatformPostResult list"

datatype AbortController = AbortController (aborted: bool)

datatype AdapterCall =
    UploadMedia File string string
  | LinkedinCreatePost CreatePostRequest
  | CreateTweet CreateTweetRequest
  | SubstackCreatePost string CreateSubstackPostRequest

datatype TimerAction = ClearPostSuccess | ClearPostError

text \<open>
  Every state setter, adapter call, timer and callback of the source appends one event,
  in program order.
\<close>

datatype Event =
    SetIsPosting bool
  | SetPostError "string option"
  | SetPostSuccess bool
  | SetUploadProgress int
  | SetCurrentPlatforms "Platform list"
  | SetResults "PlatformPostResult list"
  | Wait int
  | Invoke AdapterCall
  | StorageGet string
  | ConsoleError string
  | SetTimeout TimerAction int
  | NotifySuccess MultiPlatformPostResponse
  | NotifyError string
  | NotifyPartialSuccess "PlatformPostResult list"

record 'w system =
  world :: 'w
  hook :: HookState
  abortController :: "AbortController option"
  trace :: "Event list"

definition emit :: "Event \<Rightarrow> 'w system \<Rightarrow> 'w system" where
  "emit e s = s\<lparr>trace := trace s @ [e]\<rparr>"

definition setIsPosting :: "bool \<Rightarrow> 'w system \<Rightarrow> 'w system" where
  "setIsPosting v s = emit (SetIsPosting v) (s\<lparr>hook := (hook s)\<lparr>isPosting := v\<rparr>\<rparr>)"

definition setPostSuccess :: "bool \<Rightarrow> 'w system \<Rightarrow> 'w system" where
  "setPostSuccess v s = emit (SetPostSuccess v) (s\<lparr>hook := (hook s)\<lparr>postSuccess := v\<rparr>\<rparr>)"

definition setPostError :: "string option \<Rightarrow> 'w system \<Rightarrow> 'w system" where
  "setPostError v s = emit (SetPostError v) (s\<lparr>hook := (hook s)\<lparr>postError := v\<rparr>\<rparr>)"

definition setUploadProgress :: "int \<Rightarrow> 'w system \<Rightarrow> 'w system" where
  "setUploadProgress v s =
     emit (SetUploadProgress v) (s\<lparr>hook := (hook s)\<lparr>uploadProgress := v\<rparr>\<rparr>)"

definition setCurrentPlatforms :: "Platform list \<Rightarrow> 'w system \<Rightarrow> 'w system" where
  "setCurrentPlatforms v s =
     emit (SetCurrentPlatforms v) (s\<lparr>hook := (hook s)\<lparr>currentPlatforms := v\<rparr>\<rparr>)"

definition setResults :: "PlatformPostResult list \<Rightarrow> 'w system \<Rightarrow> 'w system" where
  "setResults v s = emit (SetResults v) (s\<lparr>hook := (hook s)\<lparr>results := v\<rparr>\<rparr>)"

text \<open>Running a collaborator on the world, with the event that records the call.\<close>

definition call :: "Event \<Rightarrow> ('w \<Rightarrow> 'a \<times> 'w) \<Rightarrow> 'w system \<Rightarrow> 'a \<times> 'w system" where
  "call e f s = (case f (world s) of (r, w') \<Rightarrow> (r, emit e (s\<lparr>world := w'\<rparr>)))"

section \<open>JavaScript helpers\<close>

text \<open>Truthiness of an optional string: \<^verbatim>\<open>undefined\<close> and \<^verbatim>\<open>""\<close> are falsy.\<close>

fun truthy :: "string option \<Rightarrow> bool" where
  "truthy None = False"
| "truthy (Some s) = (s \<noteq> [])"

text \<open>\<^verbatim>\<open>a || b\<close> on an optional string.\<close>

fun or_else :: "string option \<Rightarrow> string \<Rightarrow> string" where
  "or_else None d = d"
| "or_else (Some s) d = (if s = [] then d else s)"

definition is_space :: "char \<Rightarrow> bool" where
  "is_space c = (c \<in> set [CHR '' '', CHR 0x09, CHR 0x0A, CHR 0x0B, CHR 0x0C, CHR 0x0D])"

definition trim :: "string \<Rightarrow> string" where
  "trim s = rev (dropWhile is_space (rev (dropWhile is_space s)))"

definition digit_char :: "nat \<Rightarrow> char" where
  "digit_char d = ''0123456789'' ! (d mod 10)"

function string_of_nat :: "nat \<Rightarrow> string" where
  "string_of_nat n =
     (if n < 10 then [digit_char n] else string_of_nat (n div 10) @ [digit_char (n mod 10)])"
  by pat_completeness auto
termination
  by (relation "measure id") auto

declare string_of_nat.simps [simp del]

text \<open>\<^verbatim>\<open>Array.prototype.join\<close>: an \<^verbatim>\<open>undefined\<close> element is joined as the empty string.\<close>

fun join :: "string \<Rightarrow> string option list \<Rightarrow> string" where
  "join sep [] = []"
| "join sep [e] = or_else e []"
| "join sep (e # e' # es) = or_else e [] @ sep @ join sep (e' # es)"

text \<open>
  \<^verbatim>\<open>Math.round((k / n) * 90) + 10\<close>, with the quotient taken exactly:
  \<^verbatim>\<open>Math.round\<close> is \<open>\<lfloor>q + 1/2\<rfloor>\<close>. The loop only evaluates it with \<open>n \<ge> 1\<close>.
\<close>

definition progress_of :: "nat \<Rightarrow> nat \<Rightarrow> int" where
  "progress_of k n = (180 * int k + int n) div (2 * int n) + 10"

section \<open>Request validation (lines 46--56)\<close>

definition requested_title :: "PlatformSpecific \<Rightarrow> string option" where
  "requested_title ps = (case specific_substack ps of None \<Rightarrow> None | Some so \<Rightarrow> title so)"

fun check_platforms :: "PlatformSpecific \<Rightarrow> Platform list \<Rightarrow> thrown option" where
  "check_platforms ps [] = None"
| "check_platforms ps (p # rest) =
     (if p = Substack \<and> \<not> truthy (requested_title ps)
      then Some (Error ''Substack posts require a title'')
      else check_platforms ps rest)"

definition validate :: "MultiPlatformPostRequest \<Rightarrow> thrown option" where
  "validate req =
     (if length (platforms req) = 0 then Some (Error ''At least one platform must be selected'')
      else check_platforms (platformSpecific req) (platforms req))"

section \<open>Posting to one platform (the switch, lines 75--181)\<close>

definition media_label :: "MediaType option \<Rightarrow> string" where
  "media_label mt = (if mt = Some IMAGE then ''Image'' else ''Video'')"

definition result_of :: "Platform \<Rightarrow> ApiResponse \<Rightarrow> PlatformPostResult" where
  "result_of p response =
     \<lparr>platform = p, success = api_success response, data = Some response,
      error = (if api_success response then None else api_message response)\<rparr>"

text \<open>The optional media upload of the LinkedIn branch (lines 79--96).\<close>

definition linkedin_upload ::
  "'w Apis \<Rightarrow> PostContent \<Rightarrow> 'w system \<Rightarrow> (thrown + string option) \<times> 'w system" where
  "linkedin_upload apis c s =
     (case content_media c of
        None \<Rightarrow> (Inr None, s)
      | Some m \<Rightarrow>
          if content_mediaType c = Some IMAGE \<or> content_mediaType c = Some VIDEO then
            (let t1 = media_label (content_mediaType c) @ '' from Auto-Post App'';
                 t2 = media_label (content_mediaType c) @ '' uploaded via Auto-Post application''
             in case call (Invoke (UploadMedia m t1 t2)) (uploadMedia apis m t1 t2) s of
                  (Inl t, s1) \<Rightarrow> (Inl t, s1)
                | (Inr uploadResponse, s1) \<Rightarrow>
                    if upload_success uploadResponse \<and> truthy (upload_assetUrn uploadResponse)
                    then (Inr (upload_assetUrn uploadResponse), s1)
                    else (Inl (Error (or_else (upload_message uploadResponse)
                                        ''Failed to upload media'')), s1))
          else (Inr None, s))"

definition linkedinData ::
  "PostContent \<Rightarrow> PlatformSpecific \<Rightarrow> string option \<Rightarrow> CreatePostRequest" where
  "linkedinData c ps mediaAssetUrn =
     (let li = specific_linkedin ps;
          art = (case li of None \<Rightarrow> None | Some l \<Rightarrow> articleData l)
      in \<lparr>post_text = trim (content_text c),
          post_visibility =
            or_else (case li of None \<Rightarrow> None | Some l \<Rightarrow> visibility l) ''PUBLIC'',
          post_mediaType =
            (if content_mediaType c \<noteq> Some TEXT then content_mediaType c else None),
          post_media =
            (case mediaAssetUrn of
               None \<Rightarrow> None
             | Some urn \<Rightarrow>
                 if urn = [] then None
                 else Some [\<lparr>media_assetUrn = urn,
                       media_title = media_label (content_mediaType c) @ '' from Auto-Post App'',
                       media_description =
                         media_label (content_mediaType c)
                           @ '' uploaded via Auto-Post application''\<rparr>]),
          post_articleUrl = (case art of None \<Rightarrow> None | Some a \<Rightarrow> Some (article_url a)),
          post_articleTitle = (case art of None \<Rightarrow> None | Some a \<Rightarrow> Some (article_title a)),
          post_articleDescription =
            (case art of
               None \<Rightarrow> None
             | Some a \<Rightarrow> if truthy (article_description a) then article_description a else None)\<rparr>)"

definition post_linkedin ::
  "'w Apis \<Rightarrow> MultiPlatformPostRequest \<Rightarrow> 'w system
     \<Rightarrow> (thrown + PlatformPostResult) \<times> 'w system" where
  "post_linkedin apis req s =
     (case linkedin_upload apis (content req) s of
        (Inl t, s1) \<Rightarrow> (Inl t, s1)
      | (Inr mediaAssetUrn, s1) \<Rightarrow>
          (let payload = linkedinData (content req) (platformSpecific req) mediaAssetUrn
           in case call (Invoke (LinkedinCreatePost payload)) (linkedin_createPost apis payload) s1 of
                (Inl t, s2) \<Rightarrow> (Inl t, s2)
              | (Inr response, s2) \<Rightarrow> (Inr (result_of Linkedin response), s2)))"

definition post_x ::
  "'w Apis \<Rightarrow> MultiPlatformPostRequest \<Rightarrow> 'w system
     \<Rightarrow> (thrown + PlatformPostResult) \<times> 'w system" where
  "post_x apis req s =
     (let tweetData = \<lparr>tweet_text = trim (content_text (content req)),
                        tweet_media = content_media (content req)\<rparr>
      in case call (Invoke (CreateTweet tweetData)) (createTweet apis tweetData) s of
           (Inl t, s1) \<Rightarrow> (Inl t, s1)
         | (Inr response, s1) \<Rightarrow> (Inr (result_of X response), s1))"

definition post_substack ::
  "'w Apis \<Rightarrow> MultiPlatformPostRequest \<Rightarrow> 'w system
     \<Rightarrow> (thrown + PlatformPostResult) \<times> 'w system" where
  "post_substack apis req s =
     (case specific_substack (platformSpecific req) of
        None \<Rightarrow> (Inl (Error ''Substack title is required''), s)
      | Some so \<Rightarrow>
          (case title so of
             None \<Rightarrow> (Inl (Error ''Substack title is required''), s)
           | Some ttl \<Rightarrow>
               if ttl = [] then (Inl (Error ''Substack title is required''), s)
               else
                 (case call (StorageGet ''substackSessionId'')
                         (getItem apis ''substackSessionId'') s of
                    (Inl t, s1) \<Rightarrow> (Inl t, s1)
                  | (Inr stored, s1) \<Rightarrow>
                      (case stored of
                         None \<Rightarrow> (Inl (Error ''Substack session not found''), s1)
                       | Some sessionId \<Rightarrow>
                           if sessionId = [] then (Inl (Error ''Substack session not found''), s1)
                           else
                             (let substackData =
                                    \<lparr>substack_title = ttl, substack_subtitle = subtitle so,
                                     substack_content = trim (content_text (content req)),
                                     substack_isDraft =
                                       (case isDraft so of None \<Rightarrow> False | Some b \<Rightarrow> b)\<rparr>
                              in case call (Invoke (SubstackCreatePost sessionId substackData))
                                      (substack_createPost apis sessionId substackData) s1 of
                                   (Inl t, s2) \<Rightarrow> (Inl t, s2)
                                 | (Inr response, s2) \<Rightarrow>
                                     (Inr (result_of Substack response), s2))))))"

fun post_to_platform ::
  "'w Apis \<Rightarrow> MultiPlatformPostRequest \<Rightarrow> Platform \<Rightarrow> 'w system
     \<Rightarrow> (thrown + PlatformPostResult) \<times> 'w system" where
  "post_to_platform apis req Linkedin s = post_linkedin apis req s"
| "post_to_platform apis req X s = post_x apis req s"
| "post_to_platform apis req Substack s = post_substack apis req s"
| "post_to_platform apis req (Unsupported tag) s =
     (Inl (Error (''Unsupported platform: '' @ tag)), s)"

section \<open>The sequential dispatch loop (lines 60--210)\<close>

text \<open>\<^verbatim>\<open>options.requestDelay || 2000\<close>: an absent delay and the falsy delay \<open>0\<close> give 2000.\<close>

definition effective_delay :: "'w UseMultiPlatformPostOptions \<Rightarrow> int" where
  "effective_delay opts =
     (case requestDelay opts of None \<Rightarrow> 2000 | Some d \<Rightarrow> if d = 0 then 2000 else d)"

definition thrown_message :: "thrown \<Rightarrow> string \<Rightarrow> string" where
  "thrown_message t fallback = (case t of Error m \<Rightarrow> m | NonError \<Rightarrow> fallback)"

text \<open>Calling an optional callback (\<^verbatim>\<open>cb?.(arg)\<close>); \<open>Some t\<close> when it throws \<open>t\<close>.\<close>

definition notify ::
  "Event \<Rightarrow> ('a \<Rightarrow> 'w \<Rightarrow> thrown option \<times> 'w) option \<Rightarrow> 'a \<Rightarrow> 'w system
     \<Rightarrow> thrown option \<times> 'w system" where
  "notify e cb arg s = (case cb of None \<Rightarrow> (None, s) | Some f \<Rightarrow> call e (f arg) s)"

definition errorResult :: "Platform \<Rightarrow> thrown \<Rightarrow> PlatformPostResult" where
  "errorResult p t =
     \<lparr>platform = p, success = False, data = None,
      error = Some (thrown_message t (''Failed to post to '' @ platform_tag p))\<rparr>"

text \<open>The per-platform \<^verbatim>\<open>catch\<close> (lines 197--209).\<close>

definition platform_catch ::
  "Platform \<Rightarrow> thrown \<Rightarrow> PlatformPostResult list \<times> 'w system
     \<Rightarrow> PlatformPostResult list \<times> 'w system" where
  "platform_catch p t st =
     (case st of (rs, s) \<Rightarrow>
        (let s1 = emit (ConsoleError (''Error posting to '' @ platform_tag p @ '':'')) s;
             rs1 = rs @ [errorResult p t]
         in (rs1, setResults rs1 s1)))"

text \<open>
  What an iteration does once the platform's request has settled with \<open>outcome\<close>
  (\<open>Inl t\<close>: something in the switch threw \<open>t\<close>). The local array \<^verbatim>\<open>results\<close> is the
  first component of the pair. Lines 183--196 are inside the \<^verbatim>\<open>try\<close>, so an exception
  of the \<^verbatim>\<open>onPartialSuccess\<close> callback reaches the same \<^verbatim>\<open>catch\<close>.
\<close>

definition settle ::
  "'w UseMultiPlatformPostOptions \<Rightarrow> MultiPlatformPostRequest \<Rightarrow> Platform
     \<Rightarrow> thrown + PlatformPostResult
     \<Rightarrow> PlatformPostResult list \<times> 'w system \<Rightarrow> PlatformPostResult list \<times> 'w system" where
  "settle opts req p outcome st =
     (case st of (rs, s1) \<Rightarrow>
        (case outcome of
           Inl t \<Rightarrow> platform_catch p t (rs, s1)
         | Inr result \<Rightarrow>
             (let rs1 = rs @ [result];
                  s2 = setUploadProgress
                         (progress_of (length rs1) (length (platforms req))) s1;
                  s3 = setResults rs1 s2
              in if success result then
                   (case notify (NotifyPartialSuccess rs1) (onPartialSuccess opts) rs1 s3 of
                      (None, s4) \<Rightarrow> (rs1, s4)
                    | (Some t, s4) \<Rightarrow> platform_catch p t (rs1, s4))
                 else (rs1, s3))))"

text \<open>One iteration (lines 65--209): the delay, the platform's request, its settling.\<close>

definition loop_body ::
  "'w UseMultiPlatformPostOptions \<Rightarrow> 'w Apis \<Rightarrow> MultiPlatformPostRequest \<Rightarrow> nat \<Rightarrow> Platform
     \<Rightarrow> PlatformPostResult list \<times> 'w system \<Rightarrow> PlatformPostResult list \<times> 'w system" where
  "loop_body opts apis req i p st =
     (case st of (rs, s) \<Rightarrow>
        (let s0 = (if i > 0 then emit (Wait (effective_delay opts)) s else s)
         in case post_to_platform apis req p s0 of
              (outcome, s1) \<Rightarrow> settle opts req p outcome (rs, s1)))"

text \<open>
  \<^verbatim>\<open>for (let i = 0; i < platforms.length; i++)\<close>: the list argument is the part of
  \<^verbatim>\<open>platforms\<close> from index \<open>i\<close> on.
\<close>

fun dispatch_loop ::
  "'w UseMultiPlatformPostOptions \<Rightarrow> 'w Apis \<Rightarrow> MultiPlatformPostRequest \<Rightarrow> nat \<Rightarrow> Platform list
     \<Rightarrow> PlatformPostResult list \<times> 'w system \<Rightarrow> PlatformPostResult list \<times> 'w system" where
  "dispatch_loop opts apis req i [] st = st"
| "dispatch_loop opts apis req i (p # rest) st =
     dispatch_loop opts apis req (Suc i) rest (loop_body opts apis req i p st)"

section \<open>Classification of the batch (lines 212--246)\<close>

definition summary :: "nat \<Rightarrow> nat \<Rightarrow> nat \<Rightarrow> string" where
  "summary successful requested failed =
     (if failed = 0 then ''Successfully posted to all '' @ string_of_nat successful @ '' platform(s)!''
      else ''Posted to '' @ string_of_nat successful @ ''/'' @ string_of_nat requested
             @ '' platform(s). '' @ string_of_nat failed @ '' failed.'')"

definition copy_result :: "PlatformPostResult \<Rightarrow> PlatformPostResult" where
  "copy_result r = \<lparr>platform = platform r, success = success r, data = data r, error = error r\<rparr>"

definition aggregate ::
  "'w UseMultiPlatformPostOptions \<Rightarrow> MultiPlatformPostRequest
     \<Rightarrow> PlatformPostResult list \<times> 'w system
     \<Rightarrow> (thrown + MultiPlatformPostResponse) \<times> 'w system" where
  "aggregate opts req st =
     (case st of (rs, s) \<Rightarrow>
        (let s1 = setUploadProgress 100 s;
             successfulPosts = filter success rs;
             failedPosts = filter (\<lambda>r. \<not> success r) rs;
             response =
               \<lparr>response_success = (length failedPosts = 0),
                response_results = map copy_result rs,
                response_message =
                  summary (length successfulPosts) (length (platforms req)) (length failedPosts)\<rparr>
         in if response_success response then
              (case notify (NotifySuccess response) (onSuccess opts) response
                      (setPostSuccess True s1) of
                 (Some t, s2) \<Rightarrow> (Inl t, s2)
               | (None, s2) \<Rightarrow> (Inr response, emit (SetTimeout ClearPostSuccess 5000) s2))
            else if length successfulPosts > 0 then
              (case notify (NotifyPartialSuccess rs) (onPartialSuccess opts) rs s1 of
                 (Some t, s2) \<Rightarrow> (Inl t, s2)
               | (None, s2) \<Rightarrow> (Inr response, emit (SetTimeout ClearPostSuccess 5000) s2))
            else
              (Inl (Error (''Failed to post to all platforms: ''
                             @ join '', '' (map error failedPosts))), s1)))"

section \<open>The run: \<^verbatim>\<open>try\<close>, \<^verbatim>\<open>catch\<close>, \<^verbatim>\<open>finally\<close>\<close>

text \<open>Lines 36--43: the synchronous start of a run.\<close>

definition submit_start :: "MultiPlatformPostRequest \<Rightarrow> 'w system \<Rightarrow> 'w system" where
  "submit_start req s =
     (let s1 = setIsPosting True s;
          s2 = setPostError None s1;
          s3 = setPostSuccess False s2;
          s4 = setUploadProgress 0 s3;
          s5 = setCurrentPlatforms (platforms req) s4;
          s6 = setResults [] s5
      in s6\<lparr>abortController := Some (AbortController False)\<rparr>)"

text \<open>Lines 45--246: \<open>Inl t\<close> when the block throws \<open>t\<close>.\<close>

definition try_block ::
  "'w UseMultiPlatformPostOptions \<Rightarrow> 'w Apis \<Rightarrow> MultiPlatformPostRequest \<Rightarrow> 'w system
     \<Rightarrow> (thrown + MultiPlatformPostResponse) \<times> 'w system" where
  "try_block opts apis req s =
     (case validate req of
        Some t \<Rightarrow> (Inl t, s)
      | None \<Rightarrow>
          aggregate opts req
            (dispatch_loop opts apis req 0 (platforms req) ([], setUploadProgress 10 s)))"

definition failedResponse :: "MultiPlatformPostRequest \<Rightarrow> string \<Rightarrow> MultiPlatformPostResponse" where
  "failedResponse req errorMessage =
     \<lparr>response_success = False,
      response_results =
        map (\<lambda>p. \<lparr>platform = p, success = False, data = None, error = Some errorMessage\<rparr>)
          (platforms req),
      response_message = errorMessage\<rparr>"

text \<open>
  Lines 247--272. An exception of the \<^verbatim>\<open>onError\<close> callback leaves the handler: the
  promise is then rejected with it (\<open>Inl\<close>).
\<close>

definition catch_block ::
  "'w UseMultiPlatformPostOptions \<Rightarrow> MultiPlatformPostRequest \<Rightarrow> thrown \<Rightarrow> 'w system
     \<Rightarrow> (thrown + MultiPlatformPostResponse) \<times> 'w system" where
  "catch_block opts req t s =
     (let s0 = emit (ConsoleError ''Multi-platform post submission failed:'') s;
          errorMessage = thrown_message t ''An unexpected error occurred while posting'';
          s1 = setPostError (Some errorMessage) s0
      in case notify (NotifyError errorMessage) (onError opts) errorMessage s1 of
           (Some t', s2) \<Rightarrow> (Inl t', s2)
         | (None, s2) \<Rightarrow>
             (Inr (failedResponse req errorMessage), emit (SetTimeout ClearPostError 10000) s2))"

text \<open>Lines 273--277.\<close>

definition finally_block :: "'w system \<Rightarrow> 'w system" where
  "finally_block s = (setUploadProgress 0 (setIsPosting False s))\<lparr>abortController := None\<rparr>"

text \<open>
  The whole asynchronous function, run without interleaving: \<open>Inr response\<close> when the
  promise resolves with \<open>response\<close>, \<open>Inl t\<close> when it is rejected with \<open>t\<close>.
\<close>

definition submitMultiPlatformPost ::
  "'w UseMultiPlatformPostOptions \<Rightarrow> 'w Apis \<Rightarrow> MultiPlatformPostRequest \<Rightarrow> 'w system
     \<Rightarrow> (thrown + MultiPlatformPostResponse) \<times> 'w system" where
  "submitMultiPlatformPost opts apis req s =
     (case try_block opts apis req (submit_start req s) of
        (Inr response, s1) \<Rightarrow> (Inr response, finally_block s1)
      | (Inl t, s1) \<Rightarrow>
          (case catch_block opts req t s1 of (r, s2) \<Rightarrow> (r, finally_block s2)))"

section \<open>Cancel, reset and render\<close>

text \<open>Lines 280--287.\<close>

definition cancelPosting :: "'w system \<Rightarrow> 'w system" where
  "cancelPosting s =
     (case abortController s of
        None \<Rightarrow> s
      | Some c \<Rightarrow>
          (let s1 = s\<lparr>abortController := Some (AbortController True)\<rparr>;
               s2 = setIsPosting False s1;
               s3 = setUploadProgress 0 s2
           in setPostError (Some ''Posting cancelled by user'') s3))"

text \<open>Lines 289--295.\<close>

definition resetState :: "'w system \<Rightarrow> 'w system" where
  "resetState s =
     (let s1 = setPostSuccess False s;
          s2 = setPostError None s1;
          s3 = setUploadProgress 0 s2;
          s4 = setResults [] s3
      in setCurrentPlatforms [] s4)"

text \<open>
  Lines 24--31. The six \<^verbatim>\<open>useState\<close> cells live in React and survive a render;
  \<^verbatim>\<open>let abortController = null\<close> is an ordinary local of the hook's body, so every
  render binds a fresh one, and the functions returned by that render close over it.
  \<open>mount\<close> is the first render, \<open>useMultiPlatformPost\<close> any later one, seen from the
  functions it returns.
\<close>

definition mount :: "'w \<Rightarrow> 'w system" where
  "mount w =
     \<lparr>world = w,
      hook = \<lparr>isPosting = False, postSuccess = False, postError = None, uploadProgress = 0,
              currentPlatforms = [], results = []\<rparr>,
      abortController = None, trace = []\<rparr>"

definition useMultiPlatformPost :: "'w system \<Rightarrow> 'w system" where
  "useMultiPlatformPost s = s\<lparr>abortController := None\<rparr>"

section \<open>Reading the event log\<close>

fun progress_values :: "Event list \<Rightarrow> int list" where
  "progress_values [] = []"
| "progress_values (SetUploadProgress v # es) = v # progress_values es"
| "progress_values (e # es) = progress_values es"

fun waits :: "Event list \<Rightarrow> int list" where
  "waits [] = []"
| "waits (Wait d # es) = d # waits es"
| "waits (e # es) = waits es"

fun adapter_calls :: "Event list \<Rightarrow> AdapterCall list" where
  "adapter_calls [] = []"
| "adapter_calls (Invoke c # es) = c # adapter_calls es"
| "adapter_calls (e # es) = adapter_calls es"

text \<open>The events a step appended: those of \<open>s'\<close> after the ones \<open>s\<close> already had.\<close>

definition events_since :: "'w system \<Rightarrow> 'w system \<Rightarrow> Event list" where
  "events_since s s' = drop (length (trace s)) (trace s')"

section \<open>Auxiliary notions and concrete collaborators\<close>

text \<open>A sequence of events that holds no delay and no progress update.\<close>

definition silent :: "Event list \<Rightarrow> bool" where
  "silent evs \<longleftrightarrow> waits evs = [] \<and> progress_values evs = []"

text \<open>A step that only talks to the collaborators: the hook's state is untouched.\<close>

definition external_step :: "'w system \<Rightarrow> 'w system \<Rightarrow> bool" where
  "external_step s s' \<longleftrightarrow>
     hook s' = hook s \<and> abortController s' = abortController s
     \<and> (\<exists>evs. trace s' = trace s @ evs \<and> silent evs)"

text \<open>An optional callback that is absent, or returns without throwing whatever it is given.\<close>

definition returns_normally :: "('a \<Rightarrow> 'w \<Rightarrow> thrown option \<times> 'w) option \<Rightarrow> bool" where
  "returns_normally cb \<longleftrightarrow> (case cb of None \<Rightarrow> True | Some f \<Rightarrow> \<forall>a w. fst (f a w) = None)"

text \<open>Two adapter answers: a success, and a failure with a message.\<close>

definition accepted :: ApiResponse where
  "accepted = \<lparr>api_success = True, api_message = None, api_data = None\<rparr>"

definition refused :: "string \<Rightarrow> ApiResponse" where
  "refused m = \<lparr>api_success = False, api_message = Some m, api_data = None\<rparr>"

text \<open>
  Adapters on a world that holds nothing: X and Substack accept, LinkedIn answers
  ``rate limited'', the upload is rejected and the session store is empty.
\<close>

definition demo_apis :: "unit Apis" where
  "demo_apis =
     \<lparr>uploadMedia = (\<lambda>f a b w. (Inl NonError, w)),
      linkedin_createPost = (\<lambda>p w. (Inr (refused ''rate limited''), w)),
      createTweet = (\<lambda>p w. (Inr accepted, w)),
      substack_createPost = (\<lambda>sid p w. (Inr accepted, w)),
      getItem = (\<lambda>k w. (Inr None, w))\<rparr>"

definition demo_request :: "Platform list \<Rightarrow> MultiPlatformPostRequest" where
  "demo_request ps =
     \<lparr>platforms = ps,
      content = \<lparr>content_text = ''hi'', content_media = None, content_mediaType = None\<rparr>,
      platformSpecific = \<lparr>specific_linkedin = None, specific_substack = None\<rparr>\<rparr>"

text \<open>
  A partial-success callback that throws when it is handed exactly one result (as a
  handler does that reads \<^verbatim>\<open>results[1].platform\<close>) and returns normally otherwise.
\<close>

definition fragile_options :: "unit UseMultiPlatformPostOptions" where
  "fragile_options =
     \<lparr>onSuccess = None, onError = None,
      onPartialSuccess =
        Some (\<lambda>rs w. (if length rs = 1 then Some (Error ''results[1] is undefined'') else None, w)),
      requestDelay = None\<rparr>"

text \<open>A request with a Substack title; the session store of \<open>demo_apis\<close> holds no session.\<close>

definition titled_request :: "Platform list \<Rightarrow> MultiPlatformPostRequest" where
  "titled_request ps =
     (demo_request ps)\<lparr>platformSpecific :=
        \<lparr>specific_linkedin = None,
         specific_substack = Some \<lparr>title = Some ''T'', subtitle = None, isDraft = None\<rparr>\<rparr>\<rparr>"

text \<open>An \<^verbatim>\<open>onError\<close> callback that throws.\<close>

definition throwing_onError_options :: "unit UseMultiPlatformPostOptions" where
  "throwing_onError_options =
     \<lparr>onSuccess = None,
      onError = Some (\<lambda>m w. (Some (Error ''toast is not defined''), w)),
      onPartialSuccess = None, requestDelay = None\<rparr>"

section \<open>Basic facts about the state operations\<close>

lemma emit_simps [simp]:
  "trace (emit e s) = trace s @ [e]"
  "world (emit e s) = world s"
  "hook (emit e s) = hook s"
  "abortController (emit e s) = abortController s"
  by (simp_all add: emit_def)

lemma setIsPosting_simps [simp]:
  "trace (setIsPosting v s) = trace s @ [SetIsPosting v]"
  "world (setIsPosting v s) = world s"
  "hook (setIsPosting v s) = (hook s)\<lparr>isPosting := v\<rparr>"
  "abortController (setIsPosting v s) = abortController s"
  by (simp_all add: setIsPosting_def)

lemma setPostSuccess_simps [simp]:
  "trace (setPostSuccess v s) = trace s @ [SetPostSuccess v]"
  "world (setPostSuccess v s) = world s"
  "hook (setPostSuccess v s) = (hook s)\<lparr>postSuccess := v\<rparr>"
  "abortController (setPostSuccess v s) = abortController s"
  by (simp_all add: setPostSuccess_def)

lemma setPostError_simps [simp]:
  "trace (setPostError v s) = trace s @ [SetPostError v]"
  "world (setPostError v s) = world s"
  "hook (setPostError v s) = (hook s)\<lparr>postError := v\<rparr>"
  "abortController (setPostError v s) = abortController s"
  by (simp_all add: setPostError_def)

lemma setUploadProgress_simps [simp]:
  "trace (setUploadProgress v s) = trace s @ [SetUploadProgress v]"
  "world (setUploadProgress v s) = world s"
  "hook (setUploadProgress v s) = (hook s)\<lparr>uploadProgress := v\<rparr>"
  "abortController (setUploadProgress v s) = abortController s"
  by (simp_all add: setUploadProgress_def)

lemma setCurrentPlatforms_simps [simp]:
  "trace (setCurrentPlatforms v s) = trace s @ [SetCurrentPlatforms v]"
  "world (setCurrentPlatforms v s) = world s"
  "hook (setCurrentPlatforms v s) = (hook s)\<lparr>currentPlatforms := v\<rparr>"
  "abortController (setCurrentPlatforms v s) = abortController s"
  by (simp_all add: setCurrentPlatforms_def)

lemma setResults_simps [simp]:
  "trace (setResults v s) = trace s @ [SetResults v]"
  "world (setResults v s) = world s"
  "hook (setResults v s) = (hook s)\<lparr>results := v\<rparr>"
  "abortController (setResults v s) = abortController s"
  by (simp_all add: setResults_def)

lemma call_cases:
  assumes "call e f s = (r, s')"
  shows "trace s' = trace s @ [e]" "hook s' = hook s" "abortController s' = abortController s"
    "f (world s) = (r, world s')"
  using assms by (auto simp: call_def split: prod.splits)

lemma notify_cases:
  assumes "notify e cb arg s = (r, s')"
  shows "hook s' = hook s" "abortController s' = abortController s"
    "trace s' = trace s @ (if cb = None then [] else [e])"
  using assms by (auto simp: notify_def dest: call_cases split: option.splits)

lemma events_since_append [simp]: "trace s' = trace s @ evs \<Longrightarrow> events_since s s' = evs"
  by (simp add: events_since_def)

lemma waits_append [simp]: "waits (xs @ ys) = waits xs @ waits ys"
  by (induction xs rule: waits.induct) simp_all

lemma progress_values_append [simp]:
  "progress_values (xs @ ys) = progress_values xs @ progress_values ys"
  by (induction xs rule: progress_values.induct) simp_all

lemma adapter_calls_append [simp]:
  "adapter_calls (xs @ ys) = adapter_calls xs @ adapter_calls ys"
  by (induction xs rule: adapter_calls.induct) simp_all

section \<open>One platform's request\<close>

lemma silent_simps [simp]:
  "silent []"
  "silent (xs @ ys) \<longleftrightarrow> silent xs \<and> silent ys"
  "silent [Invoke c]" "silent [StorageGet k]" "silent [ConsoleError m]"
  "silent [SetResults rs]" "silent [NotifyPartialSuccess rs]"
  by (auto simp: silent_def)

lemma external_step_refl [simp]: "external_step s s"
  by (simp add: external_step_def)

lemma external_step_trans:
  "external_step s s1 \<Longrightarrow> external_step s1 s2 \<Longrightarrow> external_step s s2"
  by (auto simp: external_step_def)

lemma call_invoke_external:
  "call (Invoke c) f s = (r, s') \<Longrightarrow> external_step s s'"
  by (auto simp: external_step_def dest: call_cases)

lemma call_storage_external:
  "call (StorageGet k) f s = (r, s') \<Longrightarrow> external_step s s'"
  by (auto simp: external_step_def dest: call_cases)

lemma linkedin_upload_external:
  "linkedin_upload apis c s = (r, s') \<Longrightarrow> external_step s s'"
  by (auto simp: linkedin_upload_def Let_def dest: call_invoke_external
      split: option.splits if_splits prod.splits sum.splits)

lemma post_linkedin_external:
  "post_linkedin apis req s = (r, s') \<Longrightarrow> external_step s s'"
  by (auto simp: post_linkedin_def Let_def
      dest: call_invoke_external linkedin_upload_external intro: external_step_trans
      split: prod.splits sum.splits)

lemma post_x_external:
  "post_x apis req s = (r, s') \<Longrightarrow> external_step s s'"
  by (auto simp: post_x_def Let_def dest: call_invoke_external split: prod.splits sum.splits)

lemma post_substack_external:
  "post_substack apis req s = (r, s') \<Longrightarrow> external_step s s'"
  by (auto simp: post_substack_def Let_def
      dest: call_invoke_external call_storage_external intro: external_step_trans
      split: option.splits if_splits prod.splits sum.splits)

lemma post_to_platform_external:
  "post_to_platform apis req p s = (r, s') \<Longrightarrow> external_step s s'"
  by (cases p)
    (auto dest: post_linkedin_external post_x_external post_substack_external)

lemma post_to_platform_platform:
  "post_to_platform apis req p s = (Inr r, s') \<Longrightarrow> platform r = p"
  by (cases p)
    (auto simp: post_linkedin_def post_x_def post_substack_def result_of_def Let_def
      split: option.splits if_splits prod.splits sum.splits)

section \<open>Settling one platform\<close>

lemma notify_returns_normally:
  "returns_normally cb \<Longrightarrow> notify e cb arg s = (r, s') \<Longrightarrow> r = None"
  by (auto simp: returns_normally_def notify_def call_def split: option.splits prod.splits)
    (metis fst_conv)

lemma platform_catch_eq:
  "platform_catch p t (rs, s) =
     (rs @ [errorResult p t],
      setResults (rs @ [errorResult p t])
        (emit (ConsoleError (''Error posting to '' @ platform_tag p @ '':'')) s))"
  by (simp add: platform_catch_def Let_def)

lemma settle_thrown:
  "settle opts req p (Inl t) (rs, s) =
     (rs @ [errorResult p t],
      setResults (rs @ [errorResult p t])
        (emit (ConsoleError (''Error posting to '' @ platform_tag p @ '':'')) s))"
  by (simp add: settle_def platform_catch_eq)


lemma settle_quiet:
  assumes "settle opts req p (Inr r) (rs, s) = (rs', s')"
    and "returns_normally (onPartialSuccess opts)"
  shows "rs' = rs @ [r]"
  using assms
  by (auto simp: settle_def platform_catch_eq Let_def dest: notify_returns_normally
      split: if_splits prod.splits option.splits)

lemma settle_failed:
  assumes "settle opts req p (Inr r) (rs, s) = (rs', s')" and "\<not> success r"
  shows "rs' = rs @ [r]"
  using assms by (auto simp: settle_def Let_def)

lemma settle_published:
  assumes "settle opts req p outcome (rs, s) = (rs', s')"
  shows "results (hook s') = rs'" and "abortController s' = abortController s"
  using assms
  by (auto simp: settle_def platform_catch_eq Let_def dest: notify_cases
      split: sum.splits if_splits prod.splits option.splits)

lemma settle_trace:
  assumes "settle opts req p outcome (rs, s) = (rs', s')"
  shows "\<exists>evs. trace s' = trace s @ evs \<and> waits evs = []
           \<and> progress_values evs =
               (case outcome of Inl t \<Rightarrow> []
                | Inr r \<Rightarrow> [progress_of (Suc (length rs)) (length (platforms req))])"
  using assms
  by (auto simp: settle_def platform_catch_eq Let_def dest!: notify_cases(3)
      split: sum.splits if_splits prod.splits option.splits)

section \<open>One iteration and the whole loop\<close>

lemma loop_body_unfold:
  "loop_body opts apis req i p (rs, s) =
     settle opts req p
       (fst (post_to_platform apis req p
               (if i > 0 then emit (Wait (effective_delay opts)) s else s)))
       (rs, snd (post_to_platform apis req p
               (if i > 0 then emit (Wait (effective_delay opts)) s else s)))"
  by (simp add: loop_body_def Let_def split: prod.splits)


lemma loop_body_quiet:
  assumes "loop_body opts apis req i p (rs, s) = (rs', s')"
    and "returns_normally (onPartialSuccess opts)"
  shows "\<exists>r. platform r = p \<and> rs' = rs @ [r]"
proof -
  let ?s0 = "if i > 0 then emit (Wait (effective_delay opts)) s else s"
  obtain outcome s1 where post: "post_to_platform apis req p ?s0 = (outcome, s1)"
    by (cases "post_to_platform apis req p ?s0")
  with assms have st: "settle opts req p outcome (rs, s1) = (rs', s')"
    by (simp add: loop_body_unfold)
  show ?thesis
  proof (cases outcome)
    case (Inl t)
    with st show ?thesis by (auto simp: settle_thrown errorResult_def)
  next
    case (Inr r)
    with st assms(2) have "rs' = rs @ [r]" by (auto dest: settle_quiet)
    with Inr post show ?thesis by (auto dest: post_to_platform_platform)
  qed
qed

lemma loop_body_published:
  assumes "loop_body opts apis req i p (rs, s) = (rs', s')"
  shows "results (hook s') = rs'"
  using assms by (auto simp: loop_body_unfold dest: settle_published(1))

lemma loop_body_trace:
  assumes "loop_body opts apis req i p (rs, s) = (rs', s')"
  shows "\<exists>evs. trace s' = trace s @ (if i > 0 then [Wait (effective_delay opts)] else []) @ evs
           \<and> waits evs = []
           \<and> (progress_values evs = []
                \<or> progress_values evs = [progress_of (Suc (length rs)) (length (platforms req))])"
proof -
  let ?s0 = "if i > 0 then emit (Wait (effective_delay opts)) s else s"
  obtain outcome s1 where post: "post_to_platform apis req p ?s0 = (outcome, s1)"
    by (cases "post_to_platform apis req p ?s0")
  with assms have st: "settle opts req p outcome (rs, s1) = (rs', s')"
    by (simp add: loop_body_unfold)
  from post_to_platform_external [OF post] obtain evs1 where
    e1: "trace s1 = trace ?s0 @ evs1" "silent evs1"
    by (auto simp: external_step_def)
  from settle_trace [OF st] obtain evs2 where
    e2: "trace s' = trace s1 @ evs2" "waits evs2 = []"
      "progress_values evs2 = (case outcome of Inl t \<Rightarrow> []
                | Inr r \<Rightarrow> [progress_of (Suc (length rs)) (length (platforms req))])"
    by blast
  have "trace s' = trace s @ (if i > 0 then [Wait (effective_delay opts)] else []) @ (evs1 @ evs2)"
    using e1 e2 by simp
  moreover have "waits (evs1 @ evs2) = []"
    using e1 e2 by (simp add: silent_def)
  moreover have "progress_values (evs1 @ evs2) = []
      \<or> progress_values (evs1 @ evs2) = [progress_of (Suc (length rs)) (length (platforms req))]"
    using e1 e2 by (cases outcome) (simp_all add: silent_def)
  ultimately show ?thesis by blast
qed

lemma dispatch_loop_append:
  "dispatch_loop opts apis req i (xs @ ys) st =
     dispatch_loop opts apis req (i + length xs) ys (dispatch_loop opts apis req i xs st)"
  by (induction xs arbitrary: i st) simp_all


text \<open>With callbacks that return normally: exactly one result per platform.\<close>

lemma dispatch_loop_quiet:
  assumes "returns_normally (onPartialSuccess opts)"
  shows "\<exists>new. fst (dispatch_loop opts apis req i ps (rs, s)) = rs @ new
         \<and> map platform new = ps"
proof (induction ps arbitrary: i rs s)
  case Nil
  then show ?case by simp
next
  case (Cons p ps)
  obtain rs' s' where body: "loop_body opts apis req i p (rs, s) = (rs', s')"
    by (cases "loop_body opts apis req i p (rs, s)")
  from loop_body_quiet [OF body assms] obtain r where r: "platform r = p" "rs' = rs @ [r]"
    by blast
  from Cons.IH [of "Suc i" rs' s'] obtain new where
    "fst (dispatch_loop opts apis req (Suc i) ps (rs', s')) = rs' @ new" "map platform new = ps"
    by blast
  with r body show ?case
    by (intro exI [of _ "r # new"]) simp
qed

lemma dispatch_loop_published:
  assumes "dispatch_loop opts apis req i ps (rs, s) = (rs', s')" and "results (hook s) = rs"
  shows "results (hook s') = rs'"
  using assms
proof (induction ps arbitrary: i rs s)
  case Nil
  then show ?case by simp
next
  case (Cons p ps)
  obtain rs1 s1 where body: "loop_body opts apis req i p (rs, s) = (rs1, s1)"
    by (cases "loop_body opts apis req i p (rs, s)")
  with Cons show ?case by (auto dest: loop_body_published)
qed

text \<open>The equations that evaluate a concrete run.\<close>

lemmas run_defs =
  submitMultiPlatformPost_def mount_def submit_start_def try_block_def validate_def
  requested_title_def loop_body_def settle_def post_x_def post_linkedin_def post_substack_def
  linkedin_upload_def linkedinData_def call_def emit_def setIsPosting_def setPostError_def
  setPostSuccess_def setUploadProgress_def setCurrentPlatforms_def setResults_def notify_def
  platform_catch_def aggregate_def catch_block_def finally_block_def failedResponse_def Let_def
  result_of_def errorResult_def thrown_message_def progress_of_def summary_def copy_result_def
  string_of_nat.simps digit_char_def trim_def is_space_def effective_delay_def
  default_options_def cancelPosting_def useMultiPlatformPost_def events_since_def

lemmas demo_defs = accepted_def refused_def demo_apis_def demo_request_def

section \<open>Per-platform failures do not stop the batch\<close>

text \<open>The three failures the switch raises by itself.\<close>

lemma unsupported_platform_throws:
  "post_to_platform apis req (Unsupported tag) s
     = (Inl (Error (''Unsupported platform: '' @ tag)), s)"
  by simp

lemma missing_session_throws:
  assumes "specific_substack (platformSpecific req) = Some so" and "title so = Some ttl"
    and "ttl \<noteq> []"
    and "getItem apis ''substackSessionId'' (world s) = (Inr stored, w')"
    and "\<not> truthy stored"
  shows "fst (post_to_platform apis req Substack s) = Inl (Error ''Substack session not found'')"
    and "adapter_calls (events_since s (snd (post_to_platform apis req Substack s))) = []"
  using assms
  by (cases stored; simp add: post_substack_def call_def events_since_def)+

lemma failed_upload_throws:
  assumes "content_media (content req) = Some m"
    and "content_mediaType (content req) = Some IMAGE \<or> content_mediaType (content req) = Some VIDEO"
    and "uploadMedia apis m (media_label (content_mediaType (content req)) @ '' from Auto-Post App'')
           (media_label (content_mediaType (content req)) @ '' uploaded via Auto-Post application'')
           (world s) = (Inr up, w')"
    and "\<not> (upload_success up \<and> truthy (upload_assetUrn up))"
  shows "fst (post_to_platform apis req Linkedin s)
           = Inl (Error (or_else (upload_message up) ''Failed to upload media''))"
    and "adapter_calls (events_since s (snd (post_to_platform apis req Linkedin s)))
           = [UploadMedia m (media_label (content_mediaType (content req)) @ '' from Auto-Post App'')
                (media_label (content_mediaType (content req))
                   @ '' uploaded via Auto-Post application'')]"
  using assms
  by (auto simp: post_linkedin_def linkedin_upload_def call_def events_since_def Let_def)



section \<open>The delay between requests\<close>

lemma dispatch_loop_waits:
  "\<exists>evs. trace (snd (dispatch_loop opts apis req i ps (rs, s))) = trace s @ evs
         \<and> waits evs =
             replicate (if i = 0 then length ps - 1 else length ps) (effective_delay opts)"
proof (induction ps arbitrary: i rs s)
  case Nil
  then show ?case by simp
next
  case (Cons p ps)
  obtain rs' s' where body: "loop_body opts apis req i p (rs, s) = (rs', s')"
    by (cases "loop_body opts apis req i p (rs, s)")
  from loop_body_trace [OF body] obtain evs1 where
    e1: "trace s' = trace s @ (if i > 0 then [Wait (effective_delay opts)] else []) @ evs1"
      "waits evs1 = []"
    by blast
  from Cons.IH [of "Suc i" rs' s'] obtain evs2 where
    e2: "trace (snd (dispatch_loop opts apis req (Suc i) ps (rs', s'))) = trace s' @ evs2"
      "waits evs2 = replicate (length ps) (effective_delay opts)"
    by auto
  let ?evs = "(if i > 0 then [Wait (effective_delay opts)] else []) @ evs1 @ evs2"
  have "trace (snd (dispatch_loop opts apis req i (p # ps) (rs, s))) = trace s @ ?evs"
    using body e1 e2 by simp
  moreover have "waits ?evs =
      replicate (if i = 0 then length (p # ps) - 1 else length (p # ps)) (effective_delay opts)"
    using e1 e2 by simp
  ultimately show ?case by blast
qed

text \<open>
  Claim C10. With \<^verbatim>\<open>requestDelay: 0\<close> the delay the loop uses is 2000
  (\<^verbatim>\<open>0 || 2000\<close>). Every iteration with index \<open>i > 0\<close> starts by waiting 2000 and waits
  no second time; a loop over two or more platforms, started at index 0, therefore waits
  2000 exactly once before each platform after the first.
\<close>

theorem zero_delay_replaced_by_default:
  assumes "requestDelay opts = Some 0" and "2 \<le> length ps"
  shows "effective_delay opts = 2000
       \<and> waits (events_since s (snd (dispatch_loop opts apis req 0 ps (rs, s))))
           = replicate (length ps - 1) 2000
       \<and> (\<forall>i p rs' s'. \<exists>evs.
             trace (snd (loop_body opts apis req (Suc i) p (rs', s'))) = trace s' @ Wait 2000 # evs
             \<and> waits evs = [])
       \<and> (\<forall>p rs' s'. waits (events_since s' (snd (loop_body opts apis req 0 p (rs', s')))) = [])"
proof -
  have d: "effective_delay opts = 2000"
    using assms(1) by (simp add: effective_delay_def)
  from dispatch_loop_waits [of opts apis req 0 ps rs s] obtain evs where
    "trace (snd (dispatch_loop opts apis req 0 ps (rs, s))) = trace s @ evs"
    "waits evs = replicate (length ps - 1) (effective_delay opts)"
    by auto
  then have w: "waits (events_since s (snd (dispatch_loop opts apis req 0 ps (rs, s))))
           = replicate (length ps - 1) 2000"
    using d by simp
  have later: "\<exists>evs. trace (snd (loop_body opts apis req (Suc i) p (rs', s')))
                  = trace s' @ Wait 2000 # evs \<and> waits evs = []" for i p rs' s'
  proof -
    obtain rs2 s2 where body: "loop_body opts apis req (Suc i) p (rs', s') = (rs2, s2)"
      by (cases "loop_body opts apis req (Suc i) p (rs', s')")
    from loop_body_trace [OF body] d body show ?thesis by auto
  qed
  have first: "waits (events_since s' (snd (loop_body opts apis req 0 p (rs', s')))) = []"
    for p rs' s'
  proof -
    obtain rs2 s2 where body: "loop_body opts apis req 0 p (rs', s') = (rs2, s2)"
      by (cases "loop_body opts apis req 0 p (rs', s')")
    from loop_body_trace [OF body] body show ?thesis by auto
  qed
  from d w later first show ?thesis by blast
qed

theorem zero_delay_replaced_by_default_witness:
  "requestDelay (default_options\<lparr>requestDelay := Some 0\<rparr> :: unit UseMultiPlatformPostOptions) = Some 0
   \<and> 2 \<le> length [X, Linkedin, X]
   \<and> waits (trace (snd (dispatch_loop (default_options\<lparr>requestDelay := Some 0\<rparr>) demo_apis
              (demo_request [X, Linkedin, X]) 0 [X, Linkedin, X] ([], mount ()))))
     = [2000, 2000]"
proof -
  have h1: "requestDelay (default_options\<lparr>requestDelay := Some 0\<rparr> :: unit UseMultiPlatformPostOptions)
      = Some 0"
    by simp
  have h2: "2 \<le> length [X, Linkedin, X]" by simp
  have "events_since (mount ()) s = trace s" for s :: "unit system"
    by (simp add: events_since_def mount_def)
  with zero_delay_replaced_by_default [OF h1 h2, of "mount ()" demo_apis
      "demo_request [X, Linkedin, X]" "[]"]
  have "waits (trace (snd (dispatch_loop (default_options\<lparr>requestDelay := Some 0\<rparr>) demo_apis
              (demo_request [X, Linkedin, X]) 0 [X, Linkedin, X] ([], mount ()))))
     = replicate (length [X, Linkedin, X] - 1) 2000"
    by simp
  then show ?thesis using h1 h2 by (simp add: numeral_2_eq_2)
qed

section \<open>Cancellation\<close>

text \<open>
  \<^verbatim>\<open>cancelPosting\<close> is guarded by the cancellation token of its own closure
  (\<^verbatim>\<open>if (abortController)\<close>), not by \<^verbatim>\<open>isPosting\<close>. Called while that token is set, it
  aborts the token and at once sets \<^verbatim>\<open>isPosting\<close> to false, \<^verbatim>\<open>uploadProgress\<close> to 0 and
  \<^verbatim>\<open>postError\<close> to the non-empty text ``Posting cancelled by user''; it calls no
  collaborator (the world is unchanged and its only events are the three setters), so it
  waits for no network call.
\<close>

lemma cancelPosting_with_token:
  assumes "abortController s \<noteq> None"
  shows "isPosting (hook (cancelPosting s)) = False
       \<and> uploadProgress (hook (cancelPosting s)) = 0
       \<and> postError (hook (cancelPosting s)) = Some ''Posting cancelled by user''
       \<and> ''Posting cancelled by user'' \<noteq> []
       \<and> abortController (cancelPosting s) = Some (AbortController True)
       \<and> world (cancelPosting s) = world s
       \<and> events_since s (cancelPosting s) =
           [SetIsPosting False, SetUploadProgress 0, SetPostError (Some ''Posting cancelled by user'')]"
  using assms by (auto simp: cancelPosting_def Let_def)

text \<open>
  Claim C8 fails on the code. A run for platforms \<open>[X]\<close> is started through the functions
  of the first render: \<^verbatim>\<open>isPosting\<close> becomes true and that render's
  \<^verbatim>\<open>abortController\<close> is set. \<^verbatim>\<open>setIsPosting(true)\<close> makes React render again; the hook's
  body binds a fresh \<^verbatim>\<open>abortController = null\<close> (line 31) and returns a new
  \<^verbatim>\<open>cancelPosting\<close> that closes over it. Called while \<^verbatim>\<open>isPosting\<close> is true, this
  \<^verbatim>\<open>cancelPosting\<close> finds its token null and changes nothing: \<^verbatim>\<open>isPosting\<close> stays true and
  no cancellation message is set.
\<close>

theorem cancelPosting_after_render:
  "isPosting (hook (useMultiPlatformPost (submit_start (demo_request [X]) (mount ())))) = True
   \<and> cancelPosting (useMultiPlatformPost (submit_start (demo_request [X]) (mount ())))
       = useMultiPlatformPost (submit_start (demo_request [X]) (mount ()))
   \<and> isPosting (hook (cancelPosting
         (useMultiPlatformPost (submit_start (demo_request [X]) (mount ()))))) = True
   \<and> postError (hook (cancelPosting
         (useMultiPlatformPost (submit_start (demo_request [X]) (mount ()))))) = None"
  by (simp add: cancelPosting_def useMultiPlatformPost_def submit_start_def Let_def)



section \<open>One result per platform\<close>

text \<open>
  Claim C1 fails on the code. Request: platforms \<open>[X]\<close>, text ``hi''; the X adapter reports
  success; the hook was given the \<^verbatim>\<open>onPartialSuccess\<close> callback of \<open>fragile_options\<close>. The
  result of X is pushed (line 183), the callback called on line 195 throws inside the
  \<^verbatim>\<open>try\<close>, and the per-platform \<^verbatim>\<open>catch\<close> pushes a second, failed result for X. The
  response that is returned holds two results for one requested platform. (When the
  callback is absent or returns normally the claim holds: \<open>results_in_requested_order\<close>
  in the last section.)
\<close>

theorem callback_exception_duplicates_result:
  "fst (submitMultiPlatformPost fragile_options demo_apis (demo_request [X]) (mount ())) =
     Inr \<lparr>response_success = False,
          response_results =
            [\<lparr>platform = X, success = True, data = Some accepted, error = None\<rparr>,
             \<lparr>platform = X, success = False, data = None,
              error = Some ''results[1] is undefined''\<rparr>],
          response_message = ''Posted to 1/1 platform(s). 1 failed.''\<rparr>"
  by (simp add: run_defs demo_defs fragile_options_def)

section \<open>Published progress\<close>

text \<open>
  Claim C5 fails on the code. Request: platforms \<open>[X, Substack, Linkedin]\<close> with a Substack
  title, default options; X accepts, the session store has no Substack session, LinkedIn
  answers. The second platform settles through the per-platform \<^verbatim>\<open>catch\<close>, which
  publishes the results but no progress: the values published in the run are
  0, 10, 40, 100, 100, 0, and 70 is never published.
\<close>

theorem no_progress_after_thrown_platform:
  "progress_values (trace (snd (submitMultiPlatformPost default_options demo_apis
       (titled_request [X, Substack, Linkedin]) (mount ())))) = [0, 10, 40, 100, 100, 0]"
  by (simp add: run_defs demo_defs titled_request_def)





section \<open>The progress values of a whole run\<close>


lemma submit_start_trace:
  "trace (submit_start req s) =
     trace s @ [SetIsPosting True, SetPostError None, SetPostSuccess False, SetUploadProgress 0,
                SetCurrentPlatforms (platforms req), SetResults []]"
  by (simp add: submit_start_def Let_def)

lemma submit_start_world [simp]: "world (submit_start req s) = world s"
  by (simp add: submit_start_def Let_def)

lemma finally_block_trace:
  "trace (finally_block s) = trace s @ [SetIsPosting False, SetUploadProgress 0]"
  by (simp add: finally_block_def)


lemma catch_block_trace:
  assumes "catch_block opts req t s = (r, s')"
  shows "\<exists>evs. trace s' = trace s @ evs
           \<and> progress_values evs = [] \<and> adapter_calls evs = [] \<and> waits evs = []"
  using assms
  by (auto simp: catch_block_def Let_def dest!: notify_cases(3)
      split: if_splits prod.splits option.splits)



lemma try_block_invalid:
  "validate req = Some t \<Longrightarrow> try_block opts apis req s = (Inl t, s)"
  by (simp add: try_block_def)




section \<open>Validation failures\<close>

lemma check_platforms_Some:
  "Substack \<in> set ps \<Longrightarrow> \<not> truthy (requested_title sp)
     \<Longrightarrow> check_platforms sp ps = Some (Error ''Substack posts require a title'')"
  by (induction ps) auto

lemma check_platforms_None:
  "Substack \<notin> set ps \<or> truthy (requested_title sp) \<Longrightarrow> check_platforms sp ps = None"
  by (induction ps) auto

lemma validate_invalid:
  assumes "platforms req = []
         \<or> (Substack \<in> set (platforms req) \<and> \<not> truthy (requested_title (platformSpecific req)))"
  shows "validate req = Some (Error (if platforms req = []
                                     then ''At least one platform must be selected''
                                     else ''Substack posts require a title''))"
  using assms by (auto simp: validate_def check_platforms_Some)

lemma validate_valid:
  assumes "platforms req \<noteq> []"
    and "Substack \<notin> set (platforms req) \<or> truthy (requested_title (platformSpecific req))"
  shows "validate req = None"
  using assms by (auto simp: validate_def check_platforms_None)

lemma catch_block_returns:
  assumes "returns_normally (onError opts)"
  shows "fst (catch_block opts req t s) =
           Inr (failedResponse req (thrown_message t ''An unexpected error occurred while posting''))"
proof -
  let ?m = "thrown_message t ''An unexpected error occurred while posting''"
  let ?s1 = "setPostError (Some ?m) (emit (ConsoleError ''Multi-platform post submission failed:'') s)"
  obtain r s2 where n: "notify (NotifyError ?m) (onError opts) ?m ?s1 = (r, s2)"
    by (cases "notify (NotifyError ?m) (onError opts) ?m ?s1")
  from notify_returns_normally [OF assms n] have "r = None" .
  with n show ?thesis by (simp add: catch_block_def Let_def)
qed

lemma catch_block_rethrows:
  assumes "onError opts = Some f"
    and "f (thrown_message t ''An unexpected error occurred while posting'') (world s) = (Some t', w')"
  shows "fst (catch_block opts req t s) = Inl t'"
  using assms by (simp add: catch_block_def notify_def call_def Let_def)

lemma submit_invalid:
  assumes "validate req = Some t"
  shows "submitMultiPlatformPost opts apis req s =
           (fst (catch_block opts req t (submit_start req s)),
            finally_block (snd (catch_block opts req t (submit_start req s))))"
  using assms by (simp add: submitMultiPlatformPost_def try_block_invalid split: prod.splits)

text \<open>
  Claim C2, as amended. For a request whose platforms list is empty, or that selects
  substack without a non-empty title, the \<^verbatim>\<open>try\<close> block throws the validation error
  before anything else happens: no adapter is called and the only progress values of the
  run are the two zeros of the start and of the \<^verbatim>\<open>finally\<close> block. When the
  \<^verbatim>\<open>onError\<close> callback is absent or returns normally, the call returns a response with
  \<open>success = False\<close>, one failed entry per requested platform carrying the validation
  message, and that message; when the callback throws, the promise is rejected with what
  it threw.
\<close>

theorem validation_failure:
  assumes "platforms req = []
         \<or> (Substack \<in> set (platforms req) \<and> \<not> truthy (requested_title (platformSpecific req)))"
  shows "\<exists>msg. (msg = ''At least one platform must be selected''
                 \<or> msg = ''Substack posts require a title'')
          \<and> try_block opts apis req (submit_start req s) = (Inl (Error msg), submit_start req s)
          \<and> adapter_calls (events_since s (snd (submitMultiPlatformPost opts apis req s))) = []
          \<and> progress_values (events_since s (snd (submitMultiPlatformPost opts apis req s))) = [0, 0]
          \<and> (returns_normally (onError opts) \<longrightarrow>
               fst (submitMultiPlatformPost opts apis req s) =
                 Inr \<lparr>response_success = False,
                      response_results =
                        map (\<lambda>p. \<lparr>platform = p, success = False, data = None, error = Some msg\<rparr>)
                          (platforms req),
                      response_message = msg\<rparr>)
          \<and> (\<forall>f t' w'. onError opts = Some f \<and> f msg (world s) = (Some t', w') \<longrightarrow>
               fst (submitMultiPlatformPost opts apis req s) = Inl t')"
proof -
  let ?msg = "if platforms req = [] then ''At least one platform must be selected''
              else ''Substack posts require a title''"
  let ?s0 = "submit_start req s"
  have v: "validate req = Some (Error ?msg)"
    using validate_invalid [OF assms] .
  have m: "thrown_message (Error ?msg) d = ?msg" for d
    by (simp add: thrown_message_def)
  have tb: "try_block opts apis req ?s0 = (Inl (Error ?msg), ?s0)"
    using v by (simp add: try_block_invalid)
  obtain r s2 where cb: "catch_block opts req (Error ?msg) ?s0 = (r, s2)"
    by (cases "catch_block opts req (Error ?msg) ?s0")
  from catch_block_trace [OF cb] obtain evs where
    evs: "trace s2 = trace ?s0 @ evs" "progress_values evs = []" "adapter_calls evs = []"
    by blast
  have fin: "snd (submitMultiPlatformPost opts apis req s) = finally_block s2"
    using cb by (simp add: submit_invalid [OF v])
  have tr: "trace (finally_block s2) =
      trace s @ ([SetIsPosting True, SetPostError None, SetPostSuccess False, SetUploadProgress 0,
                SetCurrentPlatforms (platforms req), SetResults []] @ evs
                @ [SetIsPosting False, SetUploadProgress 0])"
    using evs(1) by (simp add: finally_block_trace submit_start_trace)
  have calls: "adapter_calls (events_since s (snd (submitMultiPlatformPost opts apis req s))) = []"
    using evs(3) by (simp add: fin events_since_append [OF tr])
  have prog: "progress_values (events_since s (snd (submitMultiPlatformPost opts apis req s))) = [0, 0]"
    using evs(2) by (simp add: fin events_since_append [OF tr])
  have ret: "fst (submitMultiPlatformPost opts apis req s) =
                 Inr \<lparr>response_success = False,
                      response_results =
                        map (\<lambda>p. \<lparr>platform = p, success = False, data = None, error = Some ?msg\<rparr>)
                          (platforms req),
                      response_message = ?msg\<rparr>"
    if "returns_normally (onError opts)"
    using catch_block_returns [OF that, of req "Error ?msg" ?s0]
    by (simp only: submit_invalid [OF v] fst_conv m failedResponse_def)
  have rej: "fst (submitMultiPlatformPost opts apis req s) = Inl t'"
    if "onError opts = Some f" "f ?msg (world s) = (Some t', w')" for f t' w'
    using catch_block_rethrows [of opts f "Error ?msg" ?s0 t' w' req] that
    by (simp add: submit_invalid [OF v] m)
  have "?msg = ''At least one platform must be selected'' \<or> ?msg = ''Substack posts require a title''"
    by simp
  with tb calls prog ret rej show ?thesis by blast
qed

theorem validation_failure_witness:
  "(platforms (demo_request [X, Substack]) = []
     \<or> (Substack \<in> set (platforms (demo_request [X, Substack]))
         \<and> \<not> truthy (requested_title (platformSpecific (demo_request [X, Substack])))))
   \<and> returns_normally (onError (default_options :: unit UseMultiPlatformPostOptions))
   \<and> fst (submitMultiPlatformPost default_options demo_apis (demo_request [X, Substack]) (mount ()))
      = Inr \<lparr>response_success = False,
             response_results =
               [\<lparr>platform = X, success = False, data = None,
                 error = Some ''Substack posts require a title''\<rparr>,
                \<lparr>platform = Substack, success = False, data = None,
                 error = Some ''Substack posts require a title''\<rparr>],
             response_message = ''Substack posts require a title''\<rparr>
   \<and> adapter_calls (events_since (mount ())
        (snd (submitMultiPlatformPost default_options demo_apis (demo_request [X, Substack])
               (mount ())))) = []"
proof -
  have h: "platforms (demo_request [X, Substack]) = []
     \<or> (Substack \<in> set (platforms (demo_request [X, Substack]))
         \<and> \<not> truthy (requested_title (platformSpecific (demo_request [X, Substack]))))"
    by (simp add: demo_request_def requested_title_def)
  have q: "returns_normally (onError (default_options :: unit UseMultiPlatformPostOptions))"
    by (simp add: returns_normally_def default_options_def)
  have r: "fst (submitMultiPlatformPost default_options demo_apis (demo_request [X, Substack]) (mount ()))
      = Inr \<lparr>response_success = False,
             response_results =
               [\<lparr>platform = X, success = False, data = None,
                 error = Some ''Substack posts require a title''\<rparr>,
                \<lparr>platform = Substack, success = False, data = None,
                 error = Some ''Substack posts require a title''\<rparr>],
             response_message = ''Substack posts require a title''\<rparr>"
    by (simp add: run_defs demo_defs)
  from validation_failure [OF h, of default_options demo_apis "mount ()"]
  have "adapter_calls (events_since (mount ())
        (snd (submitMultiPlatformPost default_options demo_apis (demo_request [X, Substack])
               (mount ())))) = []"
    by blast
  with h q r show ?thesis by blast
qed

text \<open>
  The claim as stated fails: with an \<^verbatim>\<open>onError\<close> callback that throws, the call for
  the request with no platforms returns no response; the promise is rejected with the
  callback's exception.
\<close>

theorem validation_failure_counterexample:
  "fst (submitMultiPlatformPost throwing_onError_options demo_apis (demo_request []) (mount ()))
     = Inl (Error ''toast is not defined'')"
  by (simp add: run_defs demo_defs throwing_onError_options_def)

section \<open>Total failure\<close>








section \<open>The partial-success scenario\<close>

lemma copy_result_simps [simp]:
  "platform (copy_result r) = platform r" "success (copy_result r) = success r"
  "error (copy_result r) = error r" "data (copy_result r) = data r"
  by (simp_all add: copy_result_def)

lemma aggregate_response:
  assumes "aggregate opts req (rs, s) = (Inr response, s')"
  shows "response =
           \<lparr>response_success = (length (filter (\<lambda>r. \<not> success r) rs) = 0),
            response_results = map copy_result rs,
            response_message =
              summary (length (filter success rs)) (length (platforms req))
                (length (filter (\<lambda>r. \<not> success r) rs))\<rparr>"
proof -
  let ?response = "\<lparr>response_success = (length (filter (\<lambda>r. \<not> success r) rs) = 0),
            response_results = map copy_result rs,
            response_message =
              summary (length (filter success rs)) (length (platforms req))
                (length (filter (\<lambda>r. \<not> success r) rs))\<rparr>"
  have "fst (aggregate opts req (rs, s)) = Inr ?response
      \<or> (\<exists>t. fst (aggregate opts req (rs, s)) = Inl t)"
    unfolding aggregate_def Let_def
    by (simp split: prod.splits option.splits)
  with assms show ?thesis by auto
qed

lemma aggregate_success_iff:
  assumes "aggregate opts req (rs, s) = (Inr response, s')"
  shows "response_success response = (filter (\<lambda>r. \<not> success r) (response_results response) = [])"
    and "map platform (response_results response) = map platform rs"
  by (simp_all add: aggregate_response [OF assms] filter_map comp_def)

text \<open>
  Claim C4. The hook has its default options. For the request with platforms
  \<open>[X, Linkedin]\<close>, text ``hi'' and no platform-specific settings, when the X adapter
  resolves with a success \<open>rx\<close> and the LinkedIn adapter then resolves with a failure \<open>rl\<close>
  whose message is ``rate limited'', the call returns the response with the successful
  result of X followed by the failed result of LinkedIn with error ``rate limited'',
  \<open>success = False\<close> and the message ``Posted to 1/2 platform(s). 1 failed.''. In this
  response, as in every response that the classification step builds, \<open>success\<close> is true
  exactly when no result failed.
\<close>

theorem partial_success_scenario:
  assumes "req = \<lparr>platforms = [X, Linkedin],
                  content = \<lparr>content_text = ''hi'', content_media = None,
                             content_mediaType = None\<rparr>,
                  platformSpecific = \<lparr>specific_linkedin = None, specific_substack = None\<rparr>\<rparr>"
    and "createTweet apis \<lparr>tweet_text = ''hi'', tweet_media = None\<rparr> (world s) = (Inr rx, w1)"
    and "api_success rx"
    and "linkedin_createPost apis
           \<lparr>post_text = ''hi'', post_visibility = ''PUBLIC'', post_mediaType = None,
            post_media = None, post_articleUrl = None, post_articleTitle = None,
            post_articleDescription = None\<rparr> w1 = (Inr rl, w2)"
    and "\<not> api_success rl" and "api_message rl = Some ''rate limited''"
  shows "fst (submitMultiPlatformPost default_options apis req s) =
           Inr \<lparr>response_success = False,
                response_results =
                  [\<lparr>platform = X, success = True, data = Some rx, error = None\<rparr>,
                   \<lparr>platform = Linkedin, success = False, data = Some rl,
                    error = Some ''rate limited''\<rparr>],
                response_message = ''Posted to 1/2 platform(s). 1 failed.''\<rparr>
       \<and> response_success (projr (fst (submitMultiPlatformPost default_options apis req s)))
           = (filter (\<lambda>r. \<not> success r)
                (response_results (projr (fst (submitMultiPlatformPost default_options apis req s))))
              = [])
       \<and> (\<forall>opts' rs st response st'.
             aggregate opts' req (rs, st) = (Inr response, st') \<longrightarrow>
             response_success response
               = (filter (\<lambda>r. \<not> success r) (response_results response) = []))"
proof -
  have "fst (submitMultiPlatformPost default_options apis req s) =
           Inr \<lparr>response_success = False,
                response_results =
                  [\<lparr>platform = X, success = True, data = Some rx, error = None\<rparr>,
                   \<lparr>platform = Linkedin, success = False, data = Some rl,
                    error = Some ''rate limited''\<rparr>],
                response_message = ''Posted to 1/2 platform(s). 1 failed.''\<rparr>"
    using assms by (simp add: run_defs)
  moreover have "\<forall>opts' rs st response st'.
             aggregate opts' req (rs, st) = (Inr response, st') \<longrightarrow>
             response_success response
               = (filter (\<lambda>r. \<not> success r) (response_results response) = [])"
    by (intro allI impI) (rule aggregate_success_iff(1))
  ultimately show ?thesis by simp
qed

theorem partial_success_scenario_witness:
  "createTweet demo_apis \<lparr>tweet_text = ''hi'', tweet_media = None\<rparr> (world (mount ()))
     = (Inr accepted, ())
   \<and> api_success accepted
   \<and> linkedin_createPost demo_apis
           \<lparr>post_text = ''hi'', post_visibility = ''PUBLIC'', post_mediaType = None,
            post_media = None, post_articleUrl = None, post_articleTitle = None,
            post_articleDescription = None\<rparr> () = (Inr (refused ''rate limited''), ())
   \<and> \<not> api_success (refused ''rate limited'')
   \<and> api_message (refused ''rate limited'') = Some ''rate limited''
   \<and> fst (submitMultiPlatformPost default_options demo_apis (demo_request [X, Linkedin]) (mount ()))
      = Inr \<lparr>response_success = False,
                response_results =
                  [\<lparr>platform = X, success = True, data = Some accepted, error = None\<rparr>,
                   \<lparr>platform = Linkedin, success = False, data = Some (refused ''rate limited''),
                    error = Some ''rate limited''\<rparr>],
                response_message = ''Posted to 1/2 platform(s). 1 failed.''\<rparr>"
proof -
  have h1: "demo_request [X, Linkedin] = \<lparr>platforms = [X, Linkedin],
                  content = \<lparr>content_text = ''hi'', content_media = None,
                             content_mediaType = None\<rparr>,
                  platformSpecific = \<lparr>specific_linkedin = None, specific_substack = None\<rparr>\<rparr>"
    by (simp add: demo_request_def)
  have h2: "createTweet demo_apis \<lparr>tweet_text = ''hi'', tweet_media = None\<rparr> (world (mount ()))
     = (Inr accepted, ())"
    by (simp add: demo_apis_def)
  have h3: "api_success accepted" by (simp add: accepted_def)
  have h4: "linkedin_createPost demo_apis
           \<lparr>post_text = ''hi'', post_visibility = ''PUBLIC'', post_mediaType = None,
            post_media = None, post_articleUrl = None, post_articleTitle = None,
            post_articleDescription = None\<rparr> () = (Inr (refused ''rate limited''), ())"
    by (simp add: demo_apis_def)
  have h5: "\<not> api_success (refused ''rate limited'')" by (simp add: refused_def)
  have h6: "api_message (refused ''rate limited'') = Some ''rate limited''"
    by (simp add: refused_def)
  from partial_success_scenario [OF h1 h2 h3 h4 h5 h6] h2 h3 h4 h5 h6
  show ?thesis by blast
qed

section \<open>Responses of runs whose callbacks return\<close>

lemma catch_block_platforms:
  assumes "catch_block opts req t s = (Inr response, s')"
  shows "map platform (response_results response) = platforms req"
  using assms
  by (auto simp: catch_block_def Let_def failedResponse_def comp_def
      split: prod.splits option.splits)

text \<open>
  With an \<^verbatim>\<open>onPartialSuccess\<close> callback that is absent or returns normally, every
  response the call returns holds one result per requested platform, in the requested
  order.
\<close>

lemma results_in_requested_order:
  assumes "returns_normally (onPartialSuccess opts)"
    and "fst (submitMultiPlatformPost opts apis req s) = Inr response"
  shows "map platform (response_results response) = platforms req"
proof -
  let ?s0 = "submit_start req s"
  obtain r1 s1 where tb: "try_block opts apis req ?s0 = (r1, s1)"
    by (cases "try_block opts apis req ?s0")
  show ?thesis
  proof (cases r1)
    case (Inl t)
    obtain r2 s2 where cb: "catch_block opts req t s1 = (r2, s2)"
      by (cases "catch_block opts req t s1")
    with tb Inl assms(2) have "r2 = Inr response"
      by (simp add: submitMultiPlatformPost_def)
    with cb show ?thesis by (auto dest: catch_block_platforms)
  next
    case (Inr resp)
    with tb assms(2) have eq: "resp = response"
      by (simp add: submitMultiPlatformPost_def)
    have v: "validate req = None"
      using tb Inr by (cases "validate req") (simp_all add: try_block_invalid)
    obtain rs s2 where loop:
      "dispatch_loop opts apis req 0 (platforms req) ([], setUploadProgress 10 ?s0) = (rs, s2)"
      by (cases "dispatch_loop opts apis req 0 (platforms req) ([], setUploadProgress 10 ?s0)")
    from dispatch_loop_quiet [OF assms(1), of apis req 0 "platforms req" "[]" "setUploadProgress 10 ?s0"]
      loop
    have mp: "map platform rs = platforms req" by auto
    have "aggregate opts req (rs, s2) = (Inr response, s1)"
      using tb Inr eq v loop by (simp add: try_block_def)
    from aggregate_success_iff(2) [OF this] mp show ?thesis by simp
  qed
qed

end
